theory Spec2Isabelle
  imports Complex_Main
begin

section \<open>The ELO rating and forecasting engine of elo.js\<close>

text \<open>
  The development embeds the computational core of \<^verbatim>\<open>src/elo.js\<close> (and of its
  variants \<^verbatim>\<open>part_000\<close>, \<^verbatim>\<open>part_001\<close>, \<^verbatim>\<open>part_002\<close>): the rating fold of
  \<^verbatim>\<open>runEloCalculation\<close>, the forecast of \<^verbatim>\<open>predictWeek\<close>/\<^verbatim>\<open>predictTeam\<close> and the
  projected records of \<^verbatim>\<open>generateRecordsTable\<close>. Fetching, parsing and rendering are left
  out; the functions take the loaded data as arguments and return what the source stores
  in \<^verbatim>\<open>FINAL_RATINGS\<close> or renders.

  Numbers. The functions are first given in exact arithmetic: a JavaScript number is a
  \<^typ>\<open>real\<close>, \<^verbatim>\<open>Math.pow(10, x)\<close> is \<open>10 powr x\<close>, \<^verbatim>\<open>Math.exp\<close> is \<open>exp\<close> and
  \<^verbatim>\<open>Math.log\<close> is \<open>ln\<close>. Where a property depends on the rounding of IEEE doubles, the
  same expressions are given a second time with every operation rounded (the definitions
  ending in \<open>_fl\<close>, on the rounding function \<open>fl\<close> below). Neither reading has
  \<^verbatim>\<open>Infinity\<close> or \<^verbatim>\<open>NaN\<close>: ratings and parameters are finite numbers, and a
  \<^verbatim>\<open>half_life_weeks\<close> of 0, which makes \<^verbatim>\<open>lambda\<close> infinite in the source, is outside the
  model. The one place where the source itself distinguishes non-numbers, the two score
  fields of a game, has a type of its own.

  Property names. A ratings or records object is a partial map, so a lookup sees own
  properties only. In the source a lookup of a name that \<^verbatim>\<open>Object.prototype\<close> defines
  (\<open>objectPrototypeNames\<close> below) finds the inherited value instead of \<^verbatim>\<open>undefined\<close>, and
  an assignment to \<^verbatim>\<open>__proto__\<close> creates no key. The theorems that depend on lookups by
  team name assume that the names are not among these.

  Names. The source's names are kept; the parameter \<^verbatim>\<open>K\<close> is written \<open>k\<close> (\<open>K\<close> is the
  field of the configuration), \<^verbatim>\<open>HFA\<close> is \<open>hfa\<close>, \<^verbatim>\<open>lambda\<close> is \<open>lam\<close> and the local
  \<^verbatim>\<open>weeksCompleted\<close> is passed as \<open>wc\<close>.
\<close>

subsection \<open>Pure helpers\<close>

text \<open>\<^verbatim>\<open>expectedProb(winnerElo, loserElo, hfaAdj)\<close>, elo.js lines 49-52.\<close>

definition expectedProb :: "real \<Rightarrow> real \<Rightarrow> real \<Rightarrow> real" where
  "expectedProb winnerElo loserElo hfaAdj =
     (let diff = winnerElo + hfaAdj - loserElo
      in 1 / (1 + 10 powr (- diff / 400)))"

text \<open>\<^verbatim>\<open>computeKprime(K, mov, eloDiffAbs, wkWeight)\<close>, elo.js lines 54-57.\<close>

definition computeKprime :: "real \<Rightarrow> real \<Rightarrow> real \<Rightarrow> real \<Rightarrow> real" where
  "computeKprime k mov eloDiffAbs wkWeight =
     (let factor = 2.2 / ((eloDiffAbs * 0.001) + 2.2)
      in k + mov * factor * wkWeight)"

text \<open>\<^verbatim>\<open>computeKFactor(baseK, marginOfVictory, eloDiff, weekWeight)\<close>, part_000 lines 53-56.\<close>

definition computeKFactor :: "real \<Rightarrow> real \<Rightarrow> real \<Rightarrow> real \<Rightarrow> real" where
  "computeKFactor baseK marginOfVictory eloDiff weekWeight =
     (let movMultiplier = 2.2 / ((eloDiff * 0.001) + 2.2)
      in baseK + marginOfVictory * movMultiplier * weekWeight)"

text \<open>\<^verbatim>\<open>computeKprime\<close> of part_002, lines 63-66 (the same text as in elo.js).\<close>

definition computeKprime_part_002 :: "real \<Rightarrow> real \<Rightarrow> real \<Rightarrow> real \<Rightarrow> real" where
  "computeKprime_part_002 k mov eloDiffAbs wkWeight =
     (let factor = 2.2 / ((eloDiffAbs * 0.001) + 2.2)
      in k + mov * factor * wkWeight)"

text \<open>\<^verbatim>\<open>computeKprime\<close> of part_001, lines 40-47: the logarithmic variant.\<close>

definition computeKprime_part_001 :: "real \<Rightarrow> real \<Rightarrow> real \<Rightarrow> real \<Rightarrow> real" where
  "computeKprime_part_001 k mov eloDiffAbs wkWeight =
     (let movTerm = ln (mov + 1);
          denom = (eloDiffAbs * 0.001) + 2.2;
          factor = 2.2 / denom
      in k * movTerm * factor * wkWeight)"

text \<open>
  The effective K-factor in the words of the specification:
  \<^verbatim>\<open>K' = K + mov * (2.2 / (abs(winnerPrior - loserPrior) * 0.001 + 2.2)) * weekWeight\<close>.
\<close>

definition canonicalKprime :: "real \<Rightarrow> real \<Rightarrow> real \<Rightarrow> real \<Rightarrow> real \<Rightarrow> real" where
  "canonicalKprime k mov winnerPrior loserPrior weekWeight =
     k + mov * (2.2 / (\<bar>winnerPrior - loserPrior\<bar> * 0.001 + 2.2)) * weekWeight"

text \<open>\<^verbatim>\<open>getWinProbability(homeElo, awayElo, HFA)\<close>, elo.js lines 67-70.\<close>

definition getWinProbability :: "real \<Rightarrow> real \<Rightarrow> real \<Rightarrow> real" where
  "getWinProbability homeElo awayElo hfa =
     1 / (1 + 10 powr (- (homeElo + hfa - awayElo) / 400))"

subsection \<open>Double-precision arithmetic\<close>

text \<open>
  Rounding to the nearest double, ties to the even significand: a real \<open>x\<close> with
  \<open>2^e \<le> |x| < 2^(e+1)\<close> is rounded to a multiple of \<open>2^(e-52)\<close>. The exponent range is
  not bounded: overflow and subnormal numbers are not modelled.
\<close>

definition round_even :: "real \<Rightarrow> int" where
  "round_even y =
     (let f = \<lfloor>y\<rfloor>
      in if y - of_int f < 1 / 2 then f
         else if 1 / 2 < y - of_int f then f + 1
         else if even f then f else f + 1)"

definition fl :: "real \<Rightarrow> real" where
  "fl x =
     (if x = 0 then 0
      else let e = \<lfloor>log 2 \<bar>x\<bar>\<rfloor>;
               q = 2 powr (of_int e - 52)
           in of_int (round_even (x / q)) * q)"

text \<open>
  \<^verbatim>\<open>Math.pow(10, x)\<close> in doubles. The language leaves its last bits to the implementation;
  the model takes the correctly rounded value, and the theorems use only that the result
  is not negative and, for the saturation, that it is below \<open>2^-53\<close> when \<open>x \<le> -50\<close>.
\<close>

definition Math_pow10 :: "real \<Rightarrow> real" where
  "Math_pow10 x = fl (10 powr x)"

text \<open>
  \<^verbatim>\<open>getWinProbability\<close>, elo.js lines 67-70, with every operation rounded: the sum, the
  difference, the division by 400 (the negation is exact), the power, \<open>1 + \<dots>\<close> and
  \<open>1 / \<dots>\<close>.
\<close>

definition getWinProbability_fl :: "real \<Rightarrow> real \<Rightarrow> real \<Rightarrow> real" where
  "getWinProbability_fl homeElo awayElo hfa =
     fl (1 / fl (1 + Math_pow10 (fl (- fl (fl (homeElo + hfa) - awayElo) / 400))))"



subsection \<open>Data model\<close>

text \<open>
  A score field of a schedule row as \<^verbatim>\<open>loadCSV\<close> leaves it: \<^verbatim>\<open>null\<close>, a number, or
  (with the loader of part_001, which applies \<^verbatim>\<open>Number\<close> to any text) \<^verbatim>\<open>NaN\<close>.
\<close>

datatype score = SNull | SNaN | SNum real

text \<open>\<^verbatim>\<open>Number.isFinite(v)\<close> on a score field.\<close>

fun Number_isFinite :: "score \<Rightarrow> bool" where
  "Number_isFinite (SNum x) = True"
| "Number_isFinite SNull = False"
| "Number_isFinite SNaN = False"

text \<open>
  The numeric value of a score in \<^verbatim>\<open>g.winnerScore - g.loserScore\<close>. The fold reads it
  only on games that passed the \<^verbatim>\<open>Number.isFinite\<close> filter, so only the case of a number
  is specified.
\<close>

fun numberOf :: "score \<Rightarrow> real" where
  "numberOf (SNum x) = x"

text \<open>One row of the schedule, the object built by \<^verbatim>\<open>loadCSV\<close> (elo.js lines 36-43).\<close>

record game =
  week :: real
  winner :: string
  winnerScore :: score
  winnerIsAway :: bool
  loser :: string
  loserScore :: score

text \<open>
  \<^verbatim>\<open>config.json\<close>: each key may be missing, the source reads it as
  \<^verbatim>\<open>Number(config.K ?? 50)\<close>.
\<close>

record config =
  K :: "real option"
  home_field_advantage :: "real option"
  half_life_weeks :: "real option"
  mean_elo :: "real option"

text \<open>The operator \<^verbatim>\<open>??\<close>.\<close>

definition nullish :: "'a option \<Rightarrow> 'a \<Rightarrow> 'a" where
  "nullish v d = (case v of None \<Rightarrow> d | Some x \<Rightarrow> x)"

text \<open>The ratings object: team name to rating.\<close>

type_synonym ratings = "string \<rightharpoonup> real"

text \<open>
  The property names that every object inherits from \<^verbatim>\<open>Object.prototype\<close>. For a team
  with such a name \<^verbatim>\<open>ratings[team] === undefined\<close> is false although the object has no
  such key, and \<^verbatim>\<open>ratings["__proto__"] = v\<close> stores nothing.
\<close>

definition objectPrototypeNames :: "string set" where
  "objectPrototypeNames =
     {''__proto__'', ''constructor'', ''hasOwnProperty'', ''isPrototypeOf'',
      ''propertyIsEnumerable'', ''toLocaleString'', ''toString'', ''valueOf'',
      ''__defineGetter__'', ''__defineSetter__'', ''__lookupGetter__'', ''__lookupSetter__''}"

text \<open>
  No key of the ratings object and no team of the schedule is such a name: then the
  partial map and the source's object agree on every lookup and assignment.
\<close>

definition plainNames :: "ratings \<Rightarrow> game list \<Rightarrow> bool" where
  "plainNames ratings schedule =
     (dom ratings \<inter> objectPrototypeNames = {}
      \<and> (\<forall>g\<in>set schedule. winner g \<notin> objectPrototypeNames \<and> loser g \<notin> objectPrototypeNames))"

subsection \<open>The rating fold of runEloCalculation\<close>

text \<open>The filter of elo.js line 115.\<close>

definition isCompleted :: "game \<Rightarrow> bool" where
  "isCompleted g = (Number_isFinite (winnerScore g) \<and> Number_isFinite (loserScore g))"

definition completedGames :: "game list \<Rightarrow> game list" where
  "completedGames schedule = filter isCompleted schedule"

text \<open>Line 116: \<^verbatim>\<open>completedGames.length ? Math.max(...completedGames.map(g => g.week)) : 0\<close>.\<close>

definition weeksCompleted :: "game list \<Rightarrow> real" where
  "weeksCompleted schedule =
     (if completedGames schedule \<noteq> [] then Max (set (map week (completedGames schedule))) else 0)"

text \<open>Lines 129-130: \<^verbatim>\<open>if (ratings[team] === undefined) ratings[team] = meanElo\<close>.\<close>

definition seed :: "real \<Rightarrow> string \<Rightarrow> ratings \<Rightarrow> ratings" where
  "seed meanElo team ratings = (if ratings team = None then ratings(team \<mapsto> meanElo) else ratings)"

text \<open>
  The local variables of one iteration (lines 132-145), the fields of the row that the
  source pushes on its trace (before the rounding of \<^verbatim>\<open>toFixed\<close>). The ratings passed in
  are the seeded ones, so both lookups are defined.
\<close>

record row =
  winnerPrior :: real
  loserPrior :: real
  hfaAdj :: real
  E :: real
  mov :: real
  wkWeight :: real
  kPrime :: real
  delta :: real
  winnerAfter :: real
  loserAfter :: real

definition gameRow :: "real \<Rightarrow> real \<Rightarrow> real \<Rightarrow> real \<Rightarrow> ratings \<Rightarrow> game \<Rightarrow> row" where
  "gameRow k hfa lam wc ratings g =
     (let winnerPrior = the (ratings (winner g));
          loserPrior = the (ratings (loser g));
          hfaAdj = (if winnerIsAway g then - hfa else hfa);
          E = expectedProb winnerPrior loserPrior hfaAdj;
          mov = max 1 (numberOf (winnerScore g) - numberOf (loserScore g));
          wkWeight = min 1 (exp (- lam * (wc - week g)));
          kPrime = computeKprime k mov \<bar>winnerPrior - loserPrior\<bar> wkWeight;
          delta = kPrime * (1 - E);
          winnerAfter = winnerPrior + delta;
          loserAfter = loserPrior - delta
      in \<lparr>winnerPrior = winnerPrior, loserPrior = loserPrior, hfaAdj = hfaAdj, E = E,
          mov = mov, wkWeight = wkWeight, kPrime = kPrime, delta = delta,
          winnerAfter = winnerAfter, loserAfter = loserAfter\<rparr>)"

text \<open>
  The body of the loop, lines 124-149: a game with an empty winner or loser is skipped
  (\<^verbatim>\<open>continue\<close>); otherwise both teams are seeded, and the winner is assigned before the
  loser.
\<close>

definition updateGame :: "real \<Rightarrow> real \<Rightarrow> real \<Rightarrow> real \<Rightarrow> real \<Rightarrow> ratings \<Rightarrow> game \<Rightarrow> ratings" where
  "updateGame k hfa lam meanElo wc ratings g =
     (if winner g = [] \<or> loser g = [] then ratings
      else let ratings1 = seed meanElo (winner g) ratings;
               ratings2 = seed meanElo (loser g) ratings1;
               r = gameRow k hfa lam wc ratings2 g;
               ratings3 = ratings2(winner g \<mapsto> winnerAfter r)
           in ratings3(loser g \<mapsto> loserAfter r))"

text \<open>
  \<^verbatim>\<open>runEloCalculation\<close>, lines 108-172, returning what it stores in \<^verbatim>\<open>FINAL_RATINGS\<close>.
  \<^verbatim>\<open>Array.prototype.sort\<close> is stable, as \<^const>\<open>sort_key\<close> is.
\<close>

definition runEloCalculation :: "config \<Rightarrow> ratings \<Rightarrow> game list \<Rightarrow> ratings" where
  "runEloCalculation config startingElo schedule =
     (let k = nullish (K config) 50;
          hfa = nullish (home_field_advantage config) 25;
          halfLife = nullish (half_life_weeks config) 12;
          lam = ln 2 / halfLife;
          meanElo = nullish (mean_elo config) 1500;
          ratings = startingElo;
          wc = weeksCompleted schedule
      in if completedGames schedule \<noteq> []
         then fold (\<lambda>g r. updateGame k hfa lam meanElo wc r g)
                (sort_key week (completedGames schedule)) ratings
         else ratings)"

subsection \<open>The rating fold of part_001\<close>

text \<open>
  The variant part_001 differs from elo.js in three places: its filter (line 75) tests the
  scores against \<^verbatim>\<open>null\<close> only, its loop has no guard against empty names, and its
  K-factor is the logarithmic one. Its loader can leave \<^verbatim>\<open>NaN\<close> in a score field; the
  filter lets such a game through, and every number computed from it is \<^verbatim>\<open>NaN\<close> in the
  source, which the model does not represent: on such games only the keys that the loop
  assigns are meaningful in the model, not the values.
\<close>

definition isCompleted_part_001 :: "game \<Rightarrow> bool" where
  "isCompleted_part_001 g = (winnerScore g \<noteq> SNull \<and> loserScore g \<noteq> SNull)"

text \<open>The body of the loop of part_001, lines 91-131.\<close>

definition updateGame_part_001 ::
  "real \<Rightarrow> real \<Rightarrow> real \<Rightarrow> real \<Rightarrow> real \<Rightarrow> ratings \<Rightarrow> game \<Rightarrow> ratings" where
  "updateGame_part_001 k hfa lam meanElo wc ratings g =
     (let ratings1 = seed meanElo (winner g) ratings;
          ratings2 = seed meanElo (loser g) ratings1;
          winnerPrior = the (ratings2 (winner g));
          loserPrior = the (ratings2 (loser g));
          hfaAdj = (if winnerIsAway g then - hfa else hfa);
          E = expectedProb winnerPrior loserPrior hfaAdj;
          rawMov = max 1 (numberOf (winnerScore g) - numberOf (loserScore g));
          mov = rawMov;
          wkWeight = min 1 (exp (- lam * (wc - week g)));
          kPrime = computeKprime_part_001 k mov \<bar>winnerPrior - loserPrior\<bar> wkWeight;
          delta = kPrime * (1 - E);
          ratings3 = ratings2(winner g \<mapsto> winnerPrior + delta)
      in ratings3(loser g \<mapsto> loserPrior - delta))"

text \<open>
  \<^verbatim>\<open>runEloCalculation\<close> of part_001, lines 64-131, returning its \<^verbatim>\<open>ratings\<close> object (the
  source renders it).
\<close>

definition runEloCalculation_part_001 :: "config \<Rightarrow> ratings \<Rightarrow> game list \<Rightarrow> ratings" where
  "runEloCalculation_part_001 config startingElo schedule =
     (let k = nullish (K config) 50;
          hfa = nullish (home_field_advantage config) 25;
          halfLife = nullish (half_life_weeks config) 12;
          meanElo = nullish (mean_elo config) 1500;
          lam = ln 2 / halfLife;
          ratings = startingElo;
          completedGames = filter isCompleted_part_001 schedule;
          wc = (if completedGames \<noteq> [] then Max (set (map week completedGames)) else 0)
      in if completedGames = [] then ratings
         else fold (\<lambda>g r. updateGame_part_001 k hfa lam meanElo wc r g)
                (sort_key week completedGames) ratings)"

subsection \<open>Forecasts: predictWeek and predictTeam\<close>

text \<open>The future-game test of lines 278-279 and 325-326.\<close>

definition isFutureGame :: "game \<Rightarrow> bool" where
  "isFutureGame g = (\<not> Number_isFinite (winnerScore g) \<and> \<not> Number_isFinite (loserScore g))"

text \<open>\<^verbatim>\<open>g.winnerIsAway ? g.loser : g.winner\<close> and \<^verbatim>\<open>g.winnerIsAway ? g.winner : g.loser\<close>.\<close>

definition homeTeamOf :: "game \<Rightarrow> string" where
  "homeTeamOf g = (if winnerIsAway g then loser g else winner g)"

definition awayTeamOf :: "game \<Rightarrow> string" where
  "awayTeamOf g = (if winnerIsAway g then winner g else loser g)"









subsection \<open>Projected records: generateRecordsTable (part_000, part_002)\<close>

record team_record =
  wins :: nat
  losses :: nat
  projWins :: real
  projLosses :: real
  elo :: real

type_synonym records = "string \<rightharpoonup> team_record"

text \<open>
  part_000 lines 125-128: a completed game counts for the teams that have a record. The
  two statements run one after the other on the same object.
\<close>

definition countCompleted :: "records \<Rightarrow> game \<Rightarrow> records" where
  "countCompleted records g =
     (let records1 = (case records (winner g) of
                        None \<Rightarrow> records
                      | Some r \<Rightarrow> records(winner g \<mapsto> r\<lparr>wins := wins r + 1\<rparr>))
      in case records1 (loser g) of
           None \<Rightarrow> records1
         | Some r \<Rightarrow> records1(loser g \<mapsto> r\<lparr>losses := losses r + 1\<rparr>))"

text \<open>
  part_000 lines 135-150: the four \<^verbatim>\<open>+=\<close> run in order, each on the record as the
  earlier ones left it, so that a game whose home and away names coincide updates one
  record four times.
\<close>

definition projectFuture :: "config \<Rightarrow> ratings \<Rightarrow> records \<Rightarrow> game \<Rightarrow> records" where
  "projectFuture CONFIG FINAL_RATINGS records g =
     (let hfa = nullish (home_field_advantage CONFIG) 25;
          home = homeTeamOf g;
          away = awayTeamOf g
      in if records home = None \<or> records away = None then records
         else let homeElo = nullish (FINAL_RATINGS home) (nullish (mean_elo CONFIG) 1500);
                  awayElo = nullish (FINAL_RATINGS away) (nullish (mean_elo CONFIG) 1500);
                  pHomeWin = getWinProbability homeElo awayElo hfa;
                  records1 = records(home \<mapsto>
                     (the (records home))\<lparr>projWins := projWins (the (records home)) + pHomeWin\<rparr>);
                  records2 = records1(home \<mapsto>
                     (the (records1 home))\<lparr>projLosses := projLosses (the (records1 home)) + (1 - pHomeWin)\<rparr>);
                  records3 = records2(away \<mapsto>
                     (the (records2 away))\<lparr>projWins := projWins (the (records2 away)) + (1 - pHomeWin)\<rparr>)
              in records3(away \<mapsto>
                     (the (records3 away))\<lparr>projLosses := projLosses (the (records3 away)) + pHomeWin\<rparr>))"

text \<open>
  \<^verbatim>\<open>generateRecordsTable\<close>, part_000 lines 97-150, up to the records object that the table
  is rendered from: \<^const>\<open>None\<close> when the schedule or the ratings are empty (the source
  shows a hint and returns).
\<close>

definition generateRecordsTable :: "config \<Rightarrow> ratings \<Rightarrow> game list \<Rightarrow> records option" where
  "generateRecordsTable CONFIG FINAL_RATINGS SCHEDULE =
     (if SCHEDULE = [] \<or> FINAL_RATINGS = Map.empty then None
      else let records0 = (\<lambda>team. map_option
                              (\<lambda>e. \<lparr>wins = 0, losses = 0, projWins = 0, projLosses = 0, elo = e\<rparr>)
                              (FINAL_RATINGS team));
               records1 = fold (\<lambda>g r. countCompleted r g) (filter isCompleted SCHEDULE) records0;
               futureGames = filter isFutureGame SCHEDULE
           in Some (fold (\<lambda>g r. projectFuture CONFIG FINAL_RATINGS r g) futureGames records1))"

text \<open>
  The same loop in doubles: the probability is the rounded one, \<^verbatim>\<open>1 - pHomeWin\<close> is
  rounded, and so is each of the four \<^verbatim>\<open>+=\<close>.
\<close>

definition projectFuture_fl :: "config \<Rightarrow> ratings \<Rightarrow> records \<Rightarrow> game \<Rightarrow> records" where
  "projectFuture_fl CONFIG FINAL_RATINGS records g =
     (let hfa = nullish (home_field_advantage CONFIG) 25;
          home = homeTeamOf g;
          away = awayTeamOf g
      in if records home = None \<or> records away = None then records
         else let homeElo = nullish (FINAL_RATINGS home) (nullish (mean_elo CONFIG) 1500);
                  awayElo = nullish (FINAL_RATINGS away) (nullish (mean_elo CONFIG) 1500);
                  pHomeWin = getWinProbability_fl homeElo awayElo hfa;
                  records1 = records(home \<mapsto>
                     (the (records home))\<lparr>projWins :=
                        fl (projWins (the (records home)) + pHomeWin)\<rparr>);
                  records2 = records1(home \<mapsto>
                     (the (records1 home))\<lparr>projLosses :=
                        fl (projLosses (the (records1 home)) + fl (1 - pHomeWin))\<rparr>);
                  records3 = records2(away \<mapsto>
                     (the (records2 away))\<lparr>projWins :=
                        fl (projWins (the (records2 away)) + fl (1 - pHomeWin))\<rparr>)
              in records3(away \<mapsto>
                     (the (records3 away))\<lparr>projLosses :=
                        fl (projLosses (the (records3 away)) + pHomeWin)\<rparr>))"

definition generateRecordsTable_fl :: "config \<Rightarrow> ratings \<Rightarrow> game list \<Rightarrow> records option" where
  "generateRecordsTable_fl CONFIG FINAL_RATINGS SCHEDULE =
     (if SCHEDULE = [] \<or> FINAL_RATINGS = Map.empty then None
      else let records0 = (\<lambda>team. map_option
                              (\<lambda>e. \<lparr>wins = 0, losses = 0, projWins = 0, projLosses = 0, elo = e\<rparr>)
                              (FINAL_RATINGS team));
               records1 = fold (\<lambda>g r. countCompleted r g) (filter isCompleted SCHEDULE) records0;
               futureGames = filter isFutureGame SCHEDULE
           in Some (fold (\<lambda>g r. projectFuture_fl CONFIG FINAL_RATINGS r g) futureGames records1))"

subsection \<open>Counting the projected games of a team\<close>

text \<open>
  The future games that \<^verbatim>\<open>generateRecordsTable\<close> counts: both sides have a rating (the
  records are made from the keys of \<^verbatim>\<open>FINAL_RATINGS\<close>). A team appears in a counted game
  once for each side it takes in it.
\<close>

definition countedFutureGames :: "ratings \<Rightarrow> game list \<Rightarrow> game list" where
  "countedFutureGames FINAL_RATINGS SCHEDULE =
     filter (\<lambda>g. isFutureGame g \<and> FINAL_RATINGS (homeTeamOf g) \<noteq> None
                  \<and> FINAL_RATINGS (awayTeamOf g) \<noteq> None) SCHEDULE"

definition appearances :: "string \<Rightarrow> game list \<Rightarrow> nat" where
  "appearances team gs =
     length (filter (\<lambda>g. homeTeamOf g = team) gs) + length (filter (\<lambda>g. awayTeamOf g = team) gs)"

text \<open>The number of games of a list in which a team takes part, each game counted once.\<close>

definition gamesCountedFor :: "string \<Rightarrow> game list \<Rightarrow> nat" where
  "gamesCountedFor team gs =
     length (filter (\<lambda>g. homeTeamOf g = team \<or> awayTeamOf g = team) gs)"

text \<open>
  The rounding error that \<open>n\<close> pairs of rounded additions can leave in
  \<^verbatim>\<open>projWins + projLosses\<close>.
\<close>

definition projBound :: "nat \<Rightarrow> real" where
  "projBound n = real n * (real n + 7) / 2 ^ 54"

subsection \<open>Seeding ahead of the fold\<close>

text \<open>
  The teams that the fold of \<^verbatim>\<open>runEloCalculation\<close> meets: winner and loser of the completed
  games with both names non-empty. \<open>seedAll\<close> gives the mean rating to each of a set of
  teams that has no rating yet; it is what the lazy seeding of lines 129-130 is compared
  with.
\<close>

definition processedTeams :: "game list \<Rightarrow> string set" where
  "processedTeams schedule =
     (\<Union>g\<in>{g \<in> set schedule. isCompleted g \<and> winner g \<noteq> [] \<and> loser g \<noteq> []}.
         {winner g, loser g})"

definition seedAll :: "real \<Rightarrow> string set \<Rightarrow> ratings \<Rightarrow> ratings" where
  "seedAll meanElo teams ratings =
     (\<lambda>t. if t \<in> teams \<and> ratings t = None then Some meanElo else ratings t)"

subsection \<open>Concrete inputs\<close>

text \<open>Scenario 1 of the specification: A beats B 24-10 at home in week 1.\<close>

definition scenario1_config :: config where
  "scenario1_config =
     \<lparr>K = Some 50, home_field_advantage = Some 25, half_life_weeks = Some 12, mean_elo = Some 1500\<rparr>"

definition scenario1_ratings :: ratings where
  "scenario1_ratings = [''A'' \<mapsto> 1500, ''B'' \<mapsto> 1500]"

definition scenario1_game :: game where
  "scenario1_game =
     \<lparr>week = 1, winner = ''A'', winnerScore = SNum 24, winnerIsAway = False,
      loser = ''B'', loserScore = SNum 10\<rparr>"

text \<open>
  The local variables of the single iteration of scenario 1, with the parameters that
  \<^const>\<open>runEloCalculation\<close> passes for \<^const>\<open>scenario1_config\<close>.
\<close>

definition scenario1_row :: row where
  "scenario1_row = gameRow 50 25 (ln 2 / 12) 1 scenario1_ratings scenario1_game"

text \<open>A game of week 2 that has not been played: A at home against C.\<close>

definition future_game :: game where
  "future_game =
     \<lparr>week = 2, winner = ''A'', winnerScore = SNull, winnerIsAway = False,
      loser = ''C'', loserScore = SNull\<rparr>"




text \<open>
  Rows for part_001: one whose winner score is text that \<^verbatim>\<open>Number\<close> turns into
  \<^verbatim>\<open>NaN\<close>, and a completed one with an empty winner name.
\<close>

definition nan_score_game :: game where
  "nan_score_game =
     \<lparr>week = 1, winner = ''A'', winnerScore = SNaN, winnerIsAway = False,
      loser = ''B'', loserScore = SNum 3\<rparr>"

definition empty_winner_game :: game where
  "empty_winner_game =
     \<lparr>week = 1, winner = [], winnerScore = SNum 24, winnerIsAway = False,
      loser = ''B'', loserScore = SNum 10\<rparr>"


section \<open>Theorems\<close>

subsection \<open>The logistic curve\<close>




subsection \<open>The rating fold: frame and domain\<close>

lemma updateGame_skip:
  "winner g = [] \<or> loser g = [] \<Longrightarrow> updateGame k hfa lam meanElo wc r g = r"
  by (simp add: updateGame_def)

lemma updateGame_other:
  "t \<noteq> winner g \<Longrightarrow> t \<noteq> loser g \<Longrightarrow> updateGame k hfa lam meanElo wc r g t = r t"
  by (simp add: updateGame_def seed_def Let_def)

lemma dom_seed: "dom (seed meanElo team r) = insert team (dom r)"
  by (auto simp: seed_def)

lemma dom_updateGame:
  "dom (updateGame k hfa lam meanElo wc r g) =
     (if winner g = [] \<or> loser g = [] then dom r
      else insert (winner g) (insert (loser g) (dom r)))"
  by (auto simp: updateGame_def Let_def dom_seed)

lemma fold_updateGame_frame:
  "\<forall>g\<in>set gs. winner g = [] \<or> loser g = [] \<or> (t \<noteq> winner g \<and> t \<noteq> loser g) \<Longrightarrow>
   fold (\<lambda>g r. updateGame k hfa lam meanElo wc r g) gs r t = r t"
proof (induction gs arbitrary: r)
  case Nil
  then show ?case by simp
next
  case (Cons g gs)
  have step: "updateGame k hfa lam meanElo wc r g t = r t"
    using Cons.prems updateGame_skip [of g k hfa lam meanElo wc r]
      updateGame_other [of t g k hfa lam meanElo wc r]
    by auto
  show ?case
    using Cons.IH [of "updateGame k hfa lam meanElo wc r g"] Cons.prems step by simp
qed

lemma dom_fold_updateGame:
  "dom (fold (\<lambda>g r. updateGame k hfa lam meanElo wc r g) gs r) =
     dom r \<union> (\<Union>g\<in>{g \<in> set gs. winner g \<noteq> [] \<and> loser g \<noteq> []}. {winner g, loser g})"
proof (induction gs arbitrary: r)
  case Nil
  then show ?case by simp
next
  case (Cons g gs)
  show ?case
    by (simp add: Cons.IH dom_updateGame) blast
qed

lemma set_sorted_completed:
  "set (sort_key week (completedGames schedule)) = {g \<in> set schedule. isCompleted g}"
  by (simp add: completedGames_def)

lemma runElo_no_completed:
  "completedGames schedule = [] \<Longrightarrow> runEloCalculation config startingElo schedule = startingElo"
  by (simp add: runEloCalculation_def Let_def)

lemma runElo_unfold:
  "runEloCalculation config startingElo schedule =
     fold (\<lambda>g r. updateGame (nullish (K config) 50) (nullish (home_field_advantage config) 25)
                    (ln 2 / nullish (half_life_weeks config) 12) (nullish (mean_elo config) 1500)
                    (weeksCompleted schedule) r g)
          (sort_key week (completedGames schedule)) startingElo"
  by (simp add: runEloCalculation_def Let_def)

text \<open>
  The rating fold of elo.js (and of part_000 and part_002, which have the same text): when
  every game of the schedule has a score that is absent or not finite, the initial
  ratings are returned as they are and \<^verbatim>\<open>weeksCompleted\<close> is 0.
\<close>

lemma no_completed_games_unchanged:
  assumes "\<forall>g\<in>set schedule.
             \<not> Number_isFinite (winnerScore g) \<or> \<not> Number_isFinite (loserScore g)"
  shows "runEloCalculation config startingElo schedule = startingElo
         \<and> weeksCompleted schedule = 0"
proof -
  from assms have "completedGames schedule = []"
    by (auto simp: completedGames_def isCompleted_def filter_empty_conv)
  then show ?thesis
    by (simp add: runElo_no_completed weeksCompleted_def)
qed

text \<open>
  The same fold leaves alone every team that is neither the winner nor the loser of a
  completed game with both names non-empty: a skipped game changes nothing and a
  processed game assigns the ratings of its two teams only.
\<close>

lemma untouched_team_keeps_rating:
  assumes "\<not> (\<exists>g\<in>set schedule. isCompleted g \<and> winner g \<noteq> [] \<and> loser g \<noteq> []
                 \<and> (winner g = t \<or> loser g = t))"
  shows "runEloCalculation config startingElo schedule t = startingElo t"
proof -
  from assms have "\<forall>g\<in>set (sort_key week (completedGames schedule)).
      winner g = [] \<or> loser g = [] \<or> (t \<noteq> winner g \<and> t \<noteq> loser g)"
    by (auto simp: completedGames_def)
  then show ?thesis
    unfolding runElo_unfold by (rule fold_updateGame_frame)
qed

subsection \<open>Scenario 1, evaluated\<close>

lemma pow16_lower: "(8659/10000::real)^16 < 1/10"
  by (simp add: power_divide)

lemma pow16_upper: "1/10 < (8661/10000::real)^16"
  by (simp add: power_divide)

lemma powr_sixteenth_pow: "((10::real) powr (-1/16)) ^ 16 = 1/10"
proof -
  have "((10::real) powr (-1/16)) ^ 16 = (10 powr (-1/16)) powr (real 16)"
    by (rule powr_realpow [symmetric]) simp
  also have "\<dots> = 10 powr (-1)"
    by (simp only: powr_powr) simp
  also have "\<dots> = 1/10"
    by (simp add: powr_neg_one)
  finally show ?thesis .
qed

lemma powr_sixteenth_lower: "8659/10000 < (10::real) powr (-1/16)"
proof (rule ccontr)
  assume "\<not> ?thesis"
  then have le: "(10::real) powr (-1/16) \<le> 8659/10000" by simp
  have "((10::real) powr (-1/16)) ^ 16 \<le> (8659/10000)^16"
    by (rule power_mono [OF le]) simp
  then show False using pow16_lower powr_sixteenth_pow by linarith
qed

lemma powr_sixteenth_upper: "(10::real) powr (-1/16) < 8661/10000"
proof (rule ccontr)
  assume "\<not> ?thesis"
  then have le: "8661/10000 \<le> (10::real) powr (-1/16)" by simp
  have "(8661/10000)^16 \<le> ((10::real) powr (-1/16)) ^ 16"
    by (rule power_mono [OF le]) simp
  then show False using pow16_upper powr_sixteenth_pow by linarith
qed

lemma logistic_bounds:
  fixes x :: real
  assumes "8659/10000 < x" "x < 8661/10000"
  shows "5358/10000 < 1 / (1 + x)" "1 / (1 + x) < 5360/10000"
  using assms by (simp_all add: field_simps)

lemma scenario1_E_bounds:
  "5358/10000 < 1 / (1 + (10::real) powr (-1/16))" "1 / (1 + (10::real) powr (-1/16)) < 5360/10000"
  using logistic_bounds [OF powr_sixteenth_lower powr_sixteenth_upper] by blast+

lemma scenario1_row_eval:
  "scenario1_row =
     \<lparr>winnerPrior = 1500, loserPrior = 1500, hfaAdj = 25, E = 1 / (1 + 10 powr (-1/16)),
      mov = 14, wkWeight = 1, kPrime = 64, delta = 64 * (1 - 1 / (1 + 10 powr (-1/16))),
      winnerAfter = 1500 + 64 * (1 - 1 / (1 + 10 powr (-1/16))),
      loserAfter = 1500 - 64 * (1 - 1 / (1 + 10 powr (-1/16)))\<rparr>"
  by (simp add: scenario1_row_def gameRow_def scenario1_ratings_def scenario1_game_def
        expectedProb_def computeKprime_def Let_def)

lemma scenario1_weeks: "weeksCompleted [scenario1_game] = 1"
  by (simp add: weeksCompleted_def completedGames_def isCompleted_def scenario1_game_def)

lemma scenario1_run:
  "runEloCalculation scenario1_config scenario1_ratings [scenario1_game] =
     [''A'' \<mapsto> winnerAfter scenario1_row, ''B'' \<mapsto> loserAfter scenario1_row]"
proof -
  have cg: "completedGames [scenario1_game] = [scenario1_game]"
    by (simp add: completedGames_def isCompleted_def scenario1_game_def)
  have sd: "seed 1500 (loser scenario1_game) (seed 1500 (winner scenario1_game) scenario1_ratings)
              = scenario1_ratings"
    by (simp add: seed_def scenario1_ratings_def scenario1_game_def)
  have "runEloCalculation scenario1_config scenario1_ratings [scenario1_game] =
          updateGame 50 25 (ln 2 / 12) 1500 1 scenario1_ratings scenario1_game"
    by (simp add: runElo_unfold cg scenario1_weeks scenario1_config_def nullish_def)
  also have "\<dots> = (scenario1_ratings(''A'' \<mapsto> winnerAfter scenario1_row))
                      (''B'' \<mapsto> loserAfter scenario1_row)"
    unfolding updateGame_def Let_def sd scenario1_row_def
    by (simp add: scenario1_game_def)
  also have "\<dots> = [''A'' \<mapsto> winnerAfter scenario1_row, ''B'' \<mapsto> loserAfter scenario1_row]"
    by (simp add: scenario1_ratings_def)
  finally show ?thesis .
qed



subsection \<open>Forecasts: the clamp and the logit\<close>













subsection \<open>Rows that a filter drops\<close>






subsection \<open>Projected records\<close>

lemma countCompleted_None: "(countCompleted r g t = None) = (r t = None)"
  by (auto simp: countCompleted_def Let_def split: option.splits if_splits)

lemma countCompleted_proj:
  "projWins (the (countCompleted r g t)) = projWins (the (r t))
   \<and> projLosses (the (countCompleted r g t)) = projLosses (the (r t))"
  by (auto simp: countCompleted_def Let_def split: option.splits if_splits)

lemma fold_countCompleted:
  "((fold (\<lambda>g r. countCompleted r g) gs r) t = None) = (r t = None)
   \<and> projWins (the (fold (\<lambda>g r. countCompleted r g) gs r t)) = projWins (the (r t))
   \<and> projLosses (the (fold (\<lambda>g r. countCompleted r g) gs r t)) = projLosses (the (r t))"
  by (induction gs arbitrary: r) (simp_all add: countCompleted_None countCompleted_proj)

lemma projectFuture_skip:
  "r (homeTeamOf g) = None \<or> r (awayTeamOf g) = None \<Longrightarrow> projectFuture C R r g = r"
  by (auto simp: projectFuture_def Let_def)

lemma projectFuture_None: "(projectFuture C R r g t = None) = (r t = None)"
  by (auto simp: projectFuture_def Let_def)

lemma projectFuture_other:
  "t \<noteq> homeTeamOf g \<Longrightarrow> t \<noteq> awayTeamOf g \<Longrightarrow> projectFuture C R r g t = r t"
  by (simp add: projectFuture_def Let_def)

lemma projectFuture_distinct:
  assumes "r (homeTeamOf g) = Some h" "r (awayTeamOf g) = Some a" "homeTeamOf g \<noteq> awayTeamOf g"
  shows "\<exists>p. p = getWinProbability (nullish (R (homeTeamOf g)) (nullish (mean_elo C) 1500))
                    (nullish (R (awayTeamOf g)) (nullish (mean_elo C) 1500))
                    (nullish (home_field_advantage C) 25)
           \<and> projectFuture C R r g (homeTeamOf g)
               = Some (h\<lparr>projWins := projWins h + p, projLosses := projLosses h + (1 - p)\<rparr>)
           \<and> projectFuture C R r g (awayTeamOf g)
               = Some (a\<lparr>projWins := projWins a + (1 - p), projLosses := projLosses a + p\<rparr>)"
  using assms by (simp add: projectFuture_def Let_def)

lemma projectFuture_same:
  assumes "r (homeTeamOf g) = Some h" "homeTeamOf g = awayTeamOf g"
  shows "\<exists>p. p = getWinProbability (nullish (R (homeTeamOf g)) (nullish (mean_elo C) 1500))
                    (nullish (R (awayTeamOf g)) (nullish (mean_elo C) 1500))
                    (nullish (home_field_advantage C) 25)
           \<and> projectFuture C R r g (homeTeamOf g)
               = Some (h\<lparr>projWins := projWins h + p + (1 - p),
                         projLosses := projLosses h + (1 - p) + p\<rparr>)"
  using assms by (simp add: projectFuture_def Let_def)

lemma projectFuture_games:
  assumes "r t \<noteq> None"
  shows "projWins (the (projectFuture C R r g t)) + projLosses (the (projectFuture C R r g t))
     = projWins (the (r t)) + projLosses (the (r t))
       + (if r (homeTeamOf g) \<noteq> None \<and> r (awayTeamOf g) \<noteq> None
          then real (appearances t [g]) else 0)"
proof (cases "r (homeTeamOf g) = None \<or> r (awayTeamOf g) = None")
  case True
  then have "projectFuture C R r g = r" by (rule projectFuture_skip)
  with True show ?thesis by auto
next
  case False
  then obtain h a where ha: "r (homeTeamOf g) = Some h" "r (awayTeamOf g) = Some a"
    by auto
  have cnt: "r (homeTeamOf g) \<noteq> None \<and> r (awayTeamOf g) \<noteq> None"
    using ha by simp
  show ?thesis
  proof (cases "homeTeamOf g = awayTeamOf g")
    case same: True
    show ?thesis
    proof (cases "t = homeTeamOf g")
      case True
      from projectFuture_same [where r = r and g = g and h = h and C = C and R = R] ha same
      obtain p where "projectFuture C R r g (homeTeamOf g)
               = Some (h\<lparr>projWins := projWins h + p + (1 - p),
                         projLosses := projLosses h + (1 - p) + p\<rparr>)"
        by blast
      then show ?thesis
        using True same ha by (simp add: appearances_def)
    next
      case False
      then have "projectFuture C R r g t = r t"
        using same by (simp add: projectFuture_other)
      then show ?thesis
        using False same cnt by (simp add: appearances_def)
    qed
  next
    case diff: False
    from projectFuture_distinct [where r = r and g = g and h = h and a = a and C = C and R = R]
      ha diff
    obtain p where p: "projectFuture C R r g (homeTeamOf g)
               = Some (h\<lparr>projWins := projWins h + p, projLosses := projLosses h + (1 - p)\<rparr>)"
      "projectFuture C R r g (awayTeamOf g)
               = Some (a\<lparr>projWins := projWins a + (1 - p), projLosses := projLosses a + p\<rparr>)"
      by blast
    consider (home) "t = homeTeamOf g" | (away) "t = awayTeamOf g"
      | (other) "t \<noteq> homeTeamOf g" "t \<noteq> awayTeamOf g"
      by blast
    then show ?thesis
    proof cases
      case home
      then show ?thesis using p(1) ha diff by (simp add: appearances_def)
    next
      case away
      then show ?thesis using p(2) ha diff by (simp add: appearances_def)
    next
      case other
      then have "projectFuture C R r g t = r t"
        by (simp add: projectFuture_other)
      then show ?thesis
        using other cnt by (simp add: appearances_def)
    qed
  qed
qed

lemma appearances_Cons: "appearances t (g # gs) = appearances t [g] + appearances t gs"
  by (simp add: appearances_def)

lemma fold_projectFuture:
  assumes "\<forall>u. (r u = None) = (R u = None)"
  shows "((fold (\<lambda>g r. projectFuture C R r g) gs r) t = None) = (R t = None)
     \<and> (R t \<noteq> None \<longrightarrow>
          projWins (the (fold (\<lambda>g r. projectFuture C R r g) gs r t))
            + projLosses (the (fold (\<lambda>g r. projectFuture C R r g) gs r t))
          = projWins (the (r t)) + projLosses (the (r t))
            + real (appearances t (filter (\<lambda>g. R (homeTeamOf g) \<noteq> None
                                              \<and> R (awayTeamOf g) \<noteq> None) gs)))"
  using assms
proof (induction gs arbitrary: r)
  case Nil
  then show ?case by (simp add: appearances_def)
next
  case (Cons g gs)
  let ?r = "projectFuture C R r g"
  let ?c = "\<lambda>g. R (homeTeamOf g) \<noteq> None \<and> R (awayTeamOf g) \<noteq> None"
  have inv: "\<forall>u. (?r u = None) = (R u = None)"
    using Cons.prems by (simp add: projectFuture_None)
  have fold_eq: "fold (\<lambda>g r. projectFuture C R r g) (g # gs) r
                   = fold (\<lambda>g r. projectFuture C R r g) gs ?r"
    by simp
  note IH = Cons.IH [OF inv]
  show ?case
  proof (cases "R t = None")
    case True
    with IH show ?thesis unfolding fold_eq by blast
  next
    case False
    then have rt: "r t \<noteq> None" using Cons.prems by simp
    have cond: "(r (homeTeamOf g) \<noteq> None \<and> r (awayTeamOf g) \<noteq> None) = ?c g"
      using Cons.prems by simp
    have step: "projWins (the (?r t)) + projLosses (the (?r t))
       = projWins (the (r t)) + projLosses (the (r t))
         + (if ?c g then real (appearances t [g]) else 0)"
      using projectFuture_games [where r = r and t = t and C = C and R = R and g = g] rt
      unfolding cond by blast
    have app: "real (appearances t (filter ?c (g # gs)))
       = (if ?c g then real (appearances t [g]) else 0) + real (appearances t (filter ?c gs))"
      by (simp add: appearances_def)
    from IH False have rest:
      "projWins (the (fold (\<lambda>g r. projectFuture C R r g) gs ?r t))
         + projLosses (the (fold (\<lambda>g r. projectFuture C R r g) gs ?r t))
       = projWins (the (?r t)) + projLosses (the (?r t)) + real (appearances t (filter ?c gs))"
      by blast
    have none: "((fold (\<lambda>g r. projectFuture C R r g) gs ?r) t = None) = (R t = None)"
      using IH by blast
    show ?thesis
      unfolding fold_eq using none rest step app by linarith
  qed
qed

lemma generateRecordsTable_Some:
  assumes "generateRecordsTable C R S = Some recs"
  shows "(recs t = None) = (R t = None)"
    and "R t \<noteq> None \<Longrightarrow>
         projWins (the (recs t)) + projLosses (the (recs t))
           = real (appearances t (countedFutureGames R S))"
proof -
  let ?r0 = "\<lambda>team. map_option
               (\<lambda>e. \<lparr>wins = 0, losses = 0, projWins = 0, projLosses = 0, elo = e\<rparr>) (R team)"
  let ?r1 = "fold (\<lambda>g r. countCompleted r g) (filter isCompleted S) ?r0"
  from assms have recs: "recs = fold (\<lambda>g r. projectFuture C R r g) (filter isFutureGame S) ?r1"
    by (simp add: generateRecordsTable_def Let_def split: if_splits)
  have inv: "\<forall>u. (?r1 u = None) = (R u = None)"
    using fold_countCompleted [where r = ?r0 and gs = "filter isCompleted S"] by simp
  note fp = fold_projectFuture [OF inv, where C = C and gs = "filter isFutureGame S" and t = t]
  from fp show "(recs t = None) = (R t = None)"
    unfolding recs by blast
  assume rt: "R t \<noteq> None"
  then obtain e where e: "R t = Some e" by auto
  have zero: "projWins (the (?r1 t)) + projLosses (the (?r1 t)) = 0"
    using fold_countCompleted [where r = ?r0 and gs = "filter isCompleted S" and t = t] e
    by simp
  have flt: "filter (\<lambda>g. R (homeTeamOf g) \<noteq> None \<and> R (awayTeamOf g) \<noteq> None)
               (filter isFutureGame S) = countedFutureGames R S"
    by (simp add: countedFutureGames_def)
  from fp rt zero show "projWins (the (recs t)) + projLosses (the (recs t))
           = real (appearances t (countedFutureGames R S))"
    unfolding recs flt by linarith
qed

subsection \<open>The fold of part_001\<close>

text \<open>
  With no NaN score the filter of part_001 agrees with the one of elo.js. Under its own
  filter part_001 returns the initial ratings when no game has both scores, and leaves
  alone every team that plays in no game that has both scores.
\<close>

lemma updateGame_part_001_other:
  "t \<noteq> winner g \<Longrightarrow> t \<noteq> loser g \<Longrightarrow> updateGame_part_001 k hfa lam meanElo wc r g t = r t"
  by (simp add: updateGame_part_001_def seed_def Let_def)

lemma fold_updateGame_part_001_frame:
  "\<forall>g\<in>set gs. t \<noteq> winner g \<and> t \<noteq> loser g \<Longrightarrow>
   fold (\<lambda>g r. updateGame_part_001 k hfa lam meanElo wc r g) gs r t = r t"
  by (induction gs arbitrary: r) (simp_all add: updateGame_part_001_other)

lemma runEloCalculation_part_001_no_scores:
  assumes "\<forall>g\<in>set schedule. winnerScore g = SNull \<or> loserScore g = SNull"
  shows "runEloCalculation_part_001 config startingElo schedule = startingElo"
proof -
  from assms have "filter isCompleted_part_001 schedule = []"
    by (auto simp: isCompleted_part_001_def filter_empty_conv)
  then show ?thesis
    by (simp add: runEloCalculation_part_001_def Let_def)
qed

lemma runEloCalculation_part_001_frame:
  assumes "\<not> (\<exists>g\<in>set schedule. isCompleted_part_001 g \<and> (winner g = t \<or> loser g = t))"
  shows "runEloCalculation_part_001 config startingElo schedule t = startingElo t"
proof -
  from assms have "\<forall>g\<in>set (sort_key week (filter isCompleted_part_001 schedule)).
      t \<noteq> winner g \<and> t \<noteq> loser g"
    by auto
  then show ?thesis
    by (simp add: runEloCalculation_part_001_def Let_def fold_updateGame_part_001_frame)
qed

lemma part_001_agrees_on_filter:
  "winnerScore g \<noteq> SNaN \<Longrightarrow> loserScore g \<noteq> SNaN \<Longrightarrow> isCompleted_part_001 g = isCompleted g"
  by (cases "winnerScore g"; cases "loserScore g") (simp_all add: isCompleted_part_001_def isCompleted_def)

subsection \<open>Rounding to doubles\<close>



































subsection \<open>Lazy and eager seeding\<close>

lemma seedAll_empty: "seedAll m {} r = r"
  by (simp add: seedAll_def)

lemma gameRow_cong:
  "r1 (winner g) = r2 (winner g) \<Longrightarrow> r1 (loser g) = r2 (loser g) \<Longrightarrow>
   gameRow k hfa lam wc r1 g = gameRow k hfa lam wc r2 g"
  by (simp add: gameRow_def)

lemma seed_seedAll:
  "t = w \<or> t = l \<Longrightarrow> seed m l (seed m w (seedAll m T r)) t = seed m l (seed m w r) t"
  by (auto simp: seed_def seedAll_def)

lemma seedAll_Some: "r t = Some v \<Longrightarrow> seedAll m T r t = Some v"
  by (simp add: seedAll_def)

lemma updateGame_at_loser:
  "winner g \<noteq> [] \<Longrightarrow> loser g \<noteq> [] \<Longrightarrow>
   updateGame k hfa lam m wc r g (loser g)
     = Some (loserAfter (gameRow k hfa lam wc (seed m (loser g) (seed m (winner g) r)) g))"
  by (simp add: updateGame_def Let_def)

lemma updateGame_at_winner:
  "winner g \<noteq> [] \<Longrightarrow> loser g \<noteq> [] \<Longrightarrow> winner g \<noteq> loser g \<Longrightarrow>
   updateGame k hfa lam m wc r g (winner g)
     = Some (winnerAfter (gameRow k hfa lam wc (seed m (loser g) (seed m (winner g) r)) g))"
  by (simp add: updateGame_def Let_def)

lemma updateGame_seedAll:
  assumes "winner g \<noteq> []" "loser g \<noteq> []"
  shows "updateGame k hfa lam m wc (seedAll m T r) g
           = seedAll m (T - {winner g, loser g}) (updateGame k hfa lam m wc r g)"
proof
  fix t
  have row: "gameRow k hfa lam wc (seed m (loser g) (seed m (winner g) (seedAll m T r))) g
               = gameRow k hfa lam wc (seed m (loser g) (seed m (winner g) r)) g"
    by (rule gameRow_cong) (simp_all add: seed_seedAll)
  consider "t = loser g" | "t = winner g" "winner g \<noteq> loser g" | "t \<noteq> winner g" "t \<noteq> loser g"
    by blast
  then show "updateGame k hfa lam m wc (seedAll m T r) g t
          = seedAll m (T - {winner g, loser g}) (updateGame k hfa lam m wc r g) t"
  proof cases
    case 1
    have a: "updateGame k hfa lam m wc (seedAll m T r) g (loser g)
          = Some (loserAfter (gameRow k hfa lam wc (seed m (loser g) (seed m (winner g) r)) g))"
      unfolding updateGame_at_loser [OF assms] row ..
    have b: "seedAll m (T - {winner g, loser g}) (updateGame k hfa lam m wc r g) (loser g)
          = Some (loserAfter (gameRow k hfa lam wc (seed m (loser g) (seed m (winner g) r)) g))"
      by (rule seedAll_Some) (rule updateGame_at_loser [OF assms])
    show ?thesis
      unfolding 1 a b ..
  next
    case 2
    have a: "updateGame k hfa lam m wc (seedAll m T r) g (winner g)
          = Some (winnerAfter (gameRow k hfa lam wc (seed m (loser g) (seed m (winner g) r)) g))"
      unfolding updateGame_at_winner [OF assms 2(2)] row ..
    have b: "seedAll m (T - {winner g, loser g}) (updateGame k hfa lam m wc r g) (winner g)
          = Some (winnerAfter (gameRow k hfa lam wc (seed m (loser g) (seed m (winner g) r)) g))"
      by (rule seedAll_Some) (rule updateGame_at_winner [OF assms 2(2)])
    show ?thesis
      unfolding 2(1) a b ..
  next
    case 3
    then have "updateGame k hfa lam m wc (seedAll m T r) g t = seedAll m T r t"
      "updateGame k hfa lam m wc r g t = r t"
      by (simp_all add: updateGame_other)
    with 3 show ?thesis
      by (simp add: seedAll_def)
  qed
qed

lemma fold_updateGame_seedAll:
  "T \<subseteq> (\<Union>g\<in>{g \<in> set gs. winner g \<noteq> [] \<and> loser g \<noteq> []}. {winner g, loser g}) \<Longrightarrow>
   fold (\<lambda>g r. updateGame k hfa lam m wc r g) gs (seedAll m T r)
     = fold (\<lambda>g r. updateGame k hfa lam m wc r g) gs r"
proof (induction gs arbitrary: T r)
  case Nil
  then have "T = {}" by simp
  then show ?case by (simp add: seedAll_empty)
next
  case (Cons g gs)
  show ?case
  proof (cases "winner g = [] \<or> loser g = []")
    case True
    then have skip: "\<And>r. updateGame k hfa lam m wc r g = r"
      by (simp add: updateGame_def)
    from True Cons.prems
    have "T \<subseteq> (\<Union>g\<in>{g \<in> set gs. winner g \<noteq> [] \<and> loser g \<noteq> []}. {winner g, loser g})"
      by auto
    then show ?thesis
      by (simp add: skip Cons.IH)
  next
    case False
    then have ne: "winner g \<noteq> []" "loser g \<noteq> []" by simp_all
    from Cons.prems
    have "T - {winner g, loser g}
            \<subseteq> (\<Union>g\<in>{g \<in> set gs. winner g \<noteq> [] \<and> loser g \<noteq> []}. {winner g, loser g})"
      by auto
    then show ?thesis
      by (simp add: updateGame_seedAll [OF ne] Cons.IH)
  qed
qed

lemma processedTeams_sorted:
  "processedTeams schedule
     = (\<Union>g\<in>{g \<in> set (sort_key week (completedGames schedule)).
                 winner g \<noteq> [] \<and> loser g \<noteq> []}. {winner g, loser g})"
  by (auto simp: processedTeams_def completedGames_def)

lemma runEloCalculation_seedAll:
  "runEloCalculation config (seedAll (nullish (mean_elo config) 1500) (processedTeams schedule)
       startingElo) schedule
     = runEloCalculation config startingElo schedule"
  unfolding runElo_unfold
  by (rule fold_updateGame_seedAll) (simp add: processedTeams_sorted)

subsection \<open>Forecasts in doubles\<close>








subsection \<open>The claims\<close>

text \<open>
  Claim C1, as stated, fails: for scenario 1 the engine's expected probability is not
  0.5716 (that is the value for a rating edge of 50, not of the home advantage 25), and so
  the change is not 27.42 and the final ratings are not 1527.4 and 1472.6, even within
  generous tolerances.
\<close>

theorem scenario1_spec_values_wrong:
  "\<not> (\<bar>E scenario1_row - 0.5716\<bar> \<le> 0.01)
   \<and> \<not> (\<bar>delta scenario1_row - 27.42\<bar> \<le> 1)
   \<and> \<not> (\<bar>the (runEloCalculation scenario1_config scenario1_ratings [scenario1_game] ''A'')
            - 1527.4\<bar> \<le> 1)
   \<and> \<not> (\<bar>the (runEloCalculation scenario1_config scenario1_ratings [scenario1_game] ''B'')
            - 1472.6\<bar> \<le> 1)"
  using scenario1_E_bounds
  by (simp add: scenario1_run scenario1_row_eval)

text \<open>
  Claim C1, amended. For scenario 1 the engine computes \<open>hfaAdj = 25\<close>,
  \<open>E = 1 / (1 + 10 powr (- 0.0625))\<close>, about 0.5359, \<open>mov = 14\<close>,
  \<open>weeksCompleted = 1\<close>, \<open>wkWeight = 1\<close>, \<open>K' = 64\<close>, \<open>delta = 64 * (1 - E)\<close>, about
  29.70, and returns the ratings A = 1500 + delta, about 1529.7, and
  B = 1500 - delta, about 1470.3.
\<close>

theorem scenario1_values:
  "hfaAdj scenario1_row = 25
   \<and> E scenario1_row = 1 / (1 + 10 powr (- 0.0625))
   \<and> \<bar>E scenario1_row - 0.5359\<bar> < 0.0001
   \<and> mov scenario1_row = 14
   \<and> weeksCompleted [scenario1_game] = 1
   \<and> wkWeight scenario1_row = 1
   \<and> kPrime scenario1_row = 64
   \<and> delta scenario1_row = 64 * (1 - E scenario1_row)
   \<and> \<bar>delta scenario1_row - 29.70\<bar> < 0.01
   \<and> runEloCalculation scenario1_config scenario1_ratings [scenario1_game]
       = [''A'' \<mapsto> 1500 + delta scenario1_row, ''B'' \<mapsto> 1500 - delta scenario1_row]
   \<and> \<bar>1500 + delta scenario1_row - 1529.7\<bar> < 0.01
   \<and> \<bar>1500 - delta scenario1_row - 1470.3\<bar> < 0.01"
proof -
  have e: "E scenario1_row = 1 / (1 + 10 powr (- 0.0625))"
    by (simp add: scenario1_row_eval)
  have d: "delta scenario1_row = 64 * (1 - E scenario1_row)"
    by (simp add: scenario1_row_eval)
  have lo: "5358/10000 < E scenario1_row" and hi: "E scenario1_row < 5360/10000"
    using scenario1_E_bounds by (simp_all add: scenario1_row_eval)
  have eb: "\<bar>E scenario1_row - 0.5359\<bar> < 0.0001"
    using lo hi by simp argo
  have db: "\<bar>delta scenario1_row - 29.70\<bar> < 0.01"
    using lo hi unfolding d by simp argo
  have ab: "\<bar>1500 + delta scenario1_row - 1529.7\<bar> < 0.01"
    using lo hi unfolding d by simp argo
  have bb: "\<bar>1500 - delta scenario1_row - 1470.3\<bar> < 0.01"
    using lo hi unfolding d by simp argo
  have run: "runEloCalculation scenario1_config scenario1_ratings [scenario1_game]
       = [''A'' \<mapsto> 1500 + delta scenario1_row, ''B'' \<mapsto> 1500 - delta scenario1_row]"
    by (simp add: scenario1_run scenario1_row_eval)
  have rest: "hfaAdj scenario1_row = 25" "mov scenario1_row = 14" "wkWeight scenario1_row = 1"
    "kPrime scenario1_row = 64"
    by (simp_all add: scenario1_row_eval)
  from e d eb db ab bb run rest scenario1_weeks show ?thesis by blast
qed

text \<open>
  Claim C2, as stated, fails: the K-factor of part_001 is not the additive one. For a
  one-point win between equally rated teams in the latest week (\<open>K = 50\<close>, \<open>mov = 1\<close>,
  rating difference 0, weight 1) elo.js gives 51 and part_001 gives \<open>50 * ln 2\<close>.
\<close>

theorem computeKprime_variants_differ:
  "computeKprime 50 1 0 1 \<noteq> computeKprime_part_001 50 1 0 1"
proof -
  have a: "computeKprime 50 1 0 1 = 51"
    by (simp add: computeKprime_def)
  have b: "computeKprime_part_001 50 1 0 1 = 50 * ln 2"
    by (simp add: computeKprime_part_001_def)
  have "50 * ln (2::real) < 50 * 1"
    using ln_2_less_1 by simp
  with a b show ?thesis by simp
qed

text \<open>
  Claim C2, amended. The K-factor functions of elo.js, part_000 and part_002 compute the
  additive form of the specification and agree with each other on every input; the one of
  part_001 computes the logarithmic form \<open>K * ln (mov + 1) * factor * weekWeight\<close>.
\<close>

theorem computeKprime_additive_variants:
  "(computeKprime k m \<bar>wp - lp\<bar> w = canonicalKprime k m wp lp w)
   \<and> (computeKFactor k m \<bar>wp - lp\<bar> w = canonicalKprime k m wp lp w)
   \<and> (computeKprime_part_002 k m \<bar>wp - lp\<bar> w = canonicalKprime k m wp lp w)
   \<and> (computeKprime k m d w = computeKFactor k m d w)
   \<and> (computeKprime k m d w = computeKprime_part_002 k m d w)
   \<and> (computeKprime_part_001 k m d w = k * ln (m + 1) * (2.2 / (d * 0.001 + 2.2)) * w)"
  by (simp add: computeKprime_def computeKFactor_def computeKprime_part_002_def
        computeKprime_part_001_def canonicalKprime_def)







text \<open>
  Claim C5, as stated, fails: a team that appears only in a future game gets no entry.
  With the ratings and the completed game of scenario 1 followed by the future game A
  against C, the result has no rating for C.
\<close>

theorem future_only_team_not_seeded:
  "future_game \<in> set [scenario1_game, future_game] \<and> loser future_game = ''C''
   \<and> ''C'' \<notin> dom (runEloCalculation scenario1_config scenario1_ratings
                     [scenario1_game, future_game])"
proof -
  have "runEloCalculation scenario1_config scenario1_ratings [scenario1_game, future_game] ''C''
          = scenario1_ratings ''C''"
    unfolding runElo_unfold
    by (rule fold_updateGame_frame)
       (simp add: completedGames_def isCompleted_def scenario1_game_def future_game_def)
  then show ?thesis
    by (simp add: scenario1_ratings_def future_game_def domIff)
qed

text \<open>
  Claim C5, amended. When no key of the initial ratings and no team of the schedule is a
  property name of \<^verbatim>\<open>Object.prototype\<close>, the keys of the result of
  \<^verbatim>\<open>runEloCalculation\<close> are exactly the keys of the initial ratings together with the
  winner and the loser of every completed game in which both names are non-empty. Such a
  team without an initial rating is seeded with \<^verbatim>\<open>mean_elo\<close>: the result is the one
  obtained from the initial ratings to which these teams have been added with the rating
  \<^verbatim>\<open>mean_elo\<close>. Teams of future games, and of completed games with an empty name, are not
  added.
\<close>

theorem runEloCalculation_dom:
  "plainNames startingElo schedule \<longrightarrow>
     dom (runEloCalculation config startingElo schedule)
       = dom startingElo \<union>
         (\<Union>g\<in>{g \<in> set schedule. isCompleted g \<and> winner g \<noteq> [] \<and> loser g \<noteq> []}.
             {winner g, loser g})
     \<and> processedTeams schedule
          = (\<Union>g\<in>{g \<in> set schedule. isCompleted g \<and> winner g \<noteq> [] \<and> loser g \<noteq> []}.
               {winner g, loser g})
     \<and> runEloCalculation config startingElo schedule
          = runEloCalculation config
              (\<lambda>t. if t \<in> processedTeams schedule \<and> startingElo t = None
                   then Some (nullish (mean_elo config) 1500) else startingElo t)
              schedule"
proof -
  have d: "dom (runEloCalculation config startingElo schedule)
       = dom startingElo \<union>
         (\<Union>g\<in>{g \<in> set schedule. isCompleted g \<and> winner g \<noteq> [] \<and> loser g \<noteq> []}.
             {winner g, loser g})"
    unfolding runElo_unfold dom_fold_updateGame set_sorted_completed
    by blast
  have p: "processedTeams schedule
          = (\<Union>g\<in>{g \<in> set schedule. isCompleted g \<and> winner g \<noteq> [] \<and> loser g \<noteq> []}.
               {winner g, loser g})"
    by (simp only: processedTeams_def)
  have s: "runEloCalculation config startingElo schedule
          = runEloCalculation config
              (\<lambda>t. if t \<in> processedTeams schedule \<and> startingElo t = None
                   then Some (nullish (mean_elo config) 1500) else startingElo t)
              schedule"
    using runEloCalculation_seedAll [of config schedule startingElo]
    by (simp only: seedAll_def)
  from d p s show ?thesis by blast
qed

text \<open>
  From no ratings at all, scenario 1 and the future game give ratings to A and B only, and
  the same ratings as from A and B at 1500.
\<close>

theorem runEloCalculation_dom_witness:
  "plainNames Map.empty [scenario1_game, future_game]
   \<and> dom (runEloCalculation scenario1_config Map.empty [scenario1_game, future_game])
       = {''A'', ''B''}
   \<and> runEloCalculation scenario1_config Map.empty [scenario1_game, future_game]
       = runEloCalculation scenario1_config scenario1_ratings [scenario1_game, future_game]"
proof -
  have pn: "plainNames Map.empty [scenario1_game, future_game]"
    by (simp add: plainNames_def objectPrototypeNames_def scenario1_game_def future_game_def)
  have c: "{g \<in> set [scenario1_game, future_game].
            isCompleted g \<and> winner g \<noteq> [] \<and> loser g \<noteq> []} = {scenario1_game}"
    by (auto simp: isCompleted_def scenario1_game_def future_game_def)
  have t: "processedTeams [scenario1_game, future_game] = {''A'', ''B''}"
    unfolding processedTeams_def c by (simp add: scenario1_game_def)
  have m: "nullish (mean_elo scenario1_config) 1500 = 1500"
    by (simp add: scenario1_config_def nullish_def)
  have s: "(\<lambda>t. if t \<in> processedTeams [scenario1_game, future_game] \<and> Map.empty t = None
                then Some (nullish (mean_elo scenario1_config) 1500) else Map.empty t)
             = scenario1_ratings"
    by (rule ext) (simp add: t m scenario1_ratings_def)
  note th = runEloCalculation_dom
              [of Map.empty "[scenario1_game, future_game]" scenario1_config, THEN mp, OF pn]
  have "dom (runEloCalculation scenario1_config Map.empty [scenario1_game, future_game])
          = dom (Map.empty :: ratings) \<union> (\<Union>g\<in>{scenario1_game}. {winner g, loser g})"
    using th [THEN conjunct1] by (simp only: c)
  then have d: "dom (runEloCalculation scenario1_config Map.empty [scenario1_game, future_game])
       = {''A'', ''B''}"
    by (simp add: scenario1_game_def)
  have e: "runEloCalculation scenario1_config Map.empty [scenario1_game, future_game]
       = runEloCalculation scenario1_config scenario1_ratings [scenario1_game, future_game]"
    using th [THEN conjunct2, THEN conjunct2] by (simp only: s)
  from pn d e show ?thesis by (intro conjI)
qed




text \<open>
  Claim C7 holds of elo.js and fails for part_001, whose filter (line 75) admits every
  game with two scores other than \<^verbatim>\<open>null\<close>. Its loader turns the row
  \<^verbatim>\<open>1,A,abc,,B,3\<close> into a game with the winner score \<^verbatim>\<open>NaN\<close>: no score of the row is
  missing, one is not finite, so the schedule has no completed game. From the ratings
  \<open>{B: 1500}\<close> elo.js returns the ratings as they are; part_001 enters its loop and adds
  the team A.
\<close>

theorem part_001_processes_nan_score:
  "\<not> Number_isFinite (winnerScore nan_score_game)
   \<and> runEloCalculation scenario1_config [''B'' \<mapsto> 1500] [nan_score_game] = [''B'' \<mapsto> 1500]
   \<and> dom (runEloCalculation_part_001 scenario1_config [''B'' \<mapsto> 1500] [nan_score_game])
       = {''A'', ''B''}
   \<and> dom (runEloCalculation_part_001 scenario1_config [''B'' \<mapsto> 1500] [nan_score_game])
       \<noteq> dom [''B'' \<mapsto> (1500::real)]"
proof -
  have n: "\<not> Number_isFinite (winnerScore nan_score_game)"
    by (simp add: nan_score_game_def)
  have "completedGames [nan_score_game] = []"
    by (simp add: completedGames_def isCompleted_def nan_score_game_def)
  then have e: "runEloCalculation scenario1_config [''B'' \<mapsto> 1500] [nan_score_game]
                  = [''B'' \<mapsto> 1500]"
    by (rule runElo_no_completed)
  have d: "dom (runEloCalculation_part_001 scenario1_config [''B'' \<mapsto> 1500] [nan_score_game])
             = {''A'', ''B''}"
    by (auto simp: runEloCalculation_part_001_def isCompleted_part_001_def Let_def
          updateGame_part_001_def seed_def nan_score_game_def split: if_splits)
  have "{''A'', ''B''} \<noteq> dom [''B'' \<mapsto> (1500::real)]"
    by auto
  with n e d show ?thesis by simp
qed




text \<open>
  Claim C9 holds of elo.js and fails for part_001, whose loop (lines 91-131) has no guard
  against an empty name. The row \<^verbatim>\<open>1,,24,,B,10\<close> is a completed game with an empty
  winner name, so B, rated 1500, is the winner or loser of no completed game with both
  names non-empty. elo.js skips the row and B keeps 1500; part_001 seeds a team with the
  empty name and lowers B by \<open>50 * ln 15 * (1 - E)\<close>, to about 1437.2.
\<close>

theorem part_001_rerates_on_empty_name:
  "winner empty_winner_game = [] \<and> isCompleted empty_winner_game
   \<and> runEloCalculation scenario1_config [''B'' \<mapsto> 1500] [empty_winner_game] ''B'' = Some 1500
   \<and> runEloCalculation_part_001 scenario1_config [''B'' \<mapsto> 1500] [empty_winner_game] ''B''
       = Some (1500 - 50 * ln 15 * (1 - 1 / (1 + 10 powr (- (1 / 16)))))
   \<and> 1500 - 50 * ln 15 * (1 - 1 / (1 + 10 powr (- (1 / 16)))) < (1477::real)"
proof -
  have w: "winner empty_winner_game = [] \<and> isCompleted empty_winner_game"
    by (simp add: empty_winner_game_def isCompleted_def)
  have "\<forall>g\<in>set (sort_key week (completedGames [empty_winner_game])).
          winner g = [] \<or> loser g = [] \<or> (''B'' \<noteq> winner g \<and> ''B'' \<noteq> loser g)"
    by (simp add: completedGames_def empty_winner_game_def)
  then have e: "runEloCalculation scenario1_config [''B'' \<mapsto> 1500] [empty_winner_game] ''B''
                  = Some 1500"
    unfolding runElo_unfold by (simp add: fold_updateGame_frame)
  have p: "runEloCalculation_part_001 scenario1_config [''B'' \<mapsto> 1500] [empty_winner_game] ''B''
       = Some (1500 - 50 * ln 15 * (1 - 1 / (1 + 10 powr (- (1 / 16)))))"
    by (simp add: runEloCalculation_part_001_def isCompleted_part_001_def Let_def
          updateGame_part_001_def seed_def empty_winner_game_def scenario1_config_def
          nullish_def expectedProb_def computeKprime_part_001_def)
  have E: "1 / (1 + (10::real) powr (- (1 / 16))) < 5360 / 10000"
    using scenario1_E_bounds(2) by simp
  have "exp 1 \<le> (3::real)"
    by (rule exp_le)
  then have "exp (1::real) < 15"
    by linarith
  then have "ln (exp (1::real)) < ln 15"
    by (subst ln_less_cancel_iff) simp_all
  then have l: "1 < ln (15::real)"
    by simp
  have "(50::real) * 1 * (1 - 5360 / 10000) < 50 * ln 15 * (1 - 1 / (1 + 10 powr (- (1 / 16))))"
    (is "?a < ?b")
  proof -
    have a: "(50::real) * 1 < 50 * ln 15"
      using l by simp
    have b: "1 - 5360 / 10000 < 1 - 1 / (1 + (10::real) powr (- (1 / 16)))"
      using E by linarith
    have "50 * 1 * (1 - 5360 / 10000) < 50 * ln 15 * (1 - 5360 / (10000::real))"
      using a by simp
    also have "\<dots> < 50 * ln 15 * (1 - 1 / (1 + (10::real) powr (- (1 / 16))))"
      using b l by (intro mult_strict_left_mono) simp_all
    finally show ?thesis .
  qed
  then have v: "1500 - 50 * ln 15 * (1 - 1 / (1 + 10 powr (- (1 / 16)))) < (1477::real)"
    by simp
  from w e p v show ?thesis by blast
qed

text \<open>
  Claim C10. In the records computed by \<^verbatim>\<open>generateRecordsTable\<close>, the projected wins and
  losses of every team add up to the number of its appearances in the counted future
  games (those whose home and away teams both have a record), a team appearing once for
  each side it takes. One counted game between two different teams adds 1 to the
  projected wins plus losses of the home team, 1 to those of the away team, and 1 to the
  projected wins of the two together; a counted row naming one team on both sides adds
  2 to that team's projected wins plus losses and 1 to its projected wins.
\<close>

theorem projected_games_count:
  "(generateRecordsTable C R S = Some recs \<and> recs t = Some rec \<longrightarrow>
      projWins rec + projLosses rec = real (appearances t (countedFutureGames R S)))
   \<and> (records (homeTeamOf g) = Some h \<and> records (awayTeamOf g) = Some a
        \<and> homeTeamOf g \<noteq> awayTeamOf g \<longrightarrow>
        (let records' = projectFuture C R records g;
             h' = the (records' (homeTeamOf g));
             a' = the (records' (awayTeamOf g))
         in projWins h' + projLosses h' = projWins h + projLosses h + 1
            \<and> projWins a' + projLosses a' = projWins a + projLosses a + 1
            \<and> projWins h' + projWins a' = projWins h + projWins a + 1))
   \<and> (records (homeTeamOf g) = Some h \<and> homeTeamOf g = awayTeamOf g \<longrightarrow>
        (let h' = the (projectFuture C R records g (homeTeamOf g))
         in projWins h' + projLosses h' = projWins h + projLosses h + 2
            \<and> projWins h' = projWins h + 1))"
proof -
  have total: "projWins rec + projLosses rec = real (appearances t (countedFutureGames R S))"
    if g: "generateRecordsTable C R S = Some recs" and r: "recs t = Some rec"
  proof -
    from generateRecordsTable_Some(1) [OF g, of t] r have "R t \<noteq> None" by simp
    from generateRecordsTable_Some(2) [OF g this] r show ?thesis by simp
  qed
  have two: "let records' = projectFuture C R records g;
             h' = the (records' (homeTeamOf g));
             a' = the (records' (awayTeamOf g))
         in projWins h' + projLosses h' = projWins h + projLosses h + 1
            \<and> projWins a' + projLosses a' = projWins a + projLosses a + 1
            \<and> projWins h' + projWins a' = projWins h + projWins a + 1"
    if "records (homeTeamOf g) = Some h" "records (awayTeamOf g) = Some a"
      "homeTeamOf g \<noteq> awayTeamOf g"
    using projectFuture_distinct
            [where r = records and g = g and h = h and a = a and C = C and R = R] that
    by (auto simp: Let_def)
  have one: "let h' = the (projectFuture C R records g (homeTeamOf g))
         in projWins h' + projLosses h' = projWins h + projLosses h + 2
            \<and> projWins h' = projWins h + 1"
    if "records (homeTeamOf g) = Some h" "homeTeamOf g = awayTeamOf g"
    using projectFuture_same [where r = records and g = g and h = h and C = C and R = R] that
    by (auto simp: Let_def)
  from total two one show ?thesis by blast
qed

text \<open>
  Ratings for A, B and C, the completed game of scenario 1 and the future game A against
  C: one projected game for A.
\<close>

theorem projected_games_count_witness:
  "generateRecordsTable scenario1_config (scenario1_ratings(''C'' \<mapsto> 1400))
      [scenario1_game, future_game] \<noteq> None
   \<and> the (generateRecordsTable scenario1_config (scenario1_ratings(''C'' \<mapsto> 1400))
          [scenario1_game, future_game]) ''A'' \<noteq> None
   \<and> projWins (the (the (generateRecordsTable scenario1_config
                            (scenario1_ratings(''C'' \<mapsto> 1400))
                            [scenario1_game, future_game]) ''A''))
       + projLosses (the (the (generateRecordsTable scenario1_config
                                 (scenario1_ratings(''C'' \<mapsto> 1400))
                                 [scenario1_game, future_game]) ''A'')) = 1"
proof -
  let ?R = "scenario1_ratings(''C'' \<mapsto> 1400)"
  let ?S = "[scenario1_game, future_game]"
  have "?R ''C'' \<noteq> None" by simp
  then have ne: "?R \<noteq> Map.empty" by force
  then obtain recs where recs: "generateRecordsTable scenario1_config ?R ?S = Some recs"
    by (simp add: generateRecordsTable_def Let_def)
  have "recs ''A'' \<noteq> None"
    using generateRecordsTable_Some(1) [OF recs, of "''A''"]
    by (simp add: scenario1_ratings_def)
  then obtain rec where rec: "recs ''A'' = Some rec" by auto
  have cnt: "real (appearances ''A'' (countedFutureGames ?R ?S)) = 1"
    by (simp add: appearances_def countedFutureGames_def isFutureGame_def homeTeamOf_def
          awayTeamOf_def scenario1_game_def future_game_def scenario1_ratings_def)
  from recs rec projected_games_count [of scenario1_config ?R ?S recs "''A''" rec] cnt
  show ?thesis by auto
qed

end
